theory Spec2Isabelle
  imports Complex_Main "HOL-Library.AList" "HOL-Library.Sublist"
begin

section \<open>The pywwt Windows-client example notebook\<close>

text \<open>
  The repository's source is one notebook, \<^verbatim>\<open>examples/windows/pywwt_example.ipynb\<close>.
  Its code cells, run top to bottom, are a straight-line Python script: no branch, no
  loop, no exception handler. Everything the script does is a call into code outside
  the notebook (the client class, the layer object, the HDF5 reader, the units library,
  two utility functions), so the script is modelled as the sequence of external calls
  it issues, each with its receiver, the name called and its arguments, together with
  the exception that ended the run, if any.

  Python floats are modelled as \<^typ>\<open>real\<close>; a float literal stands for the decimal
  number it is written as. The \<^verbatim>\<open>import\<close> statements are not modelled.
\<close>

subsection \<open>Python values\<close>

type_synonym rgb = "nat \<times> nat \<times> nat"

datatype pyval =
    PyStr string
  | PyFloat real
  | PyBool bool
  | PyUnit string
  | PyStrs "string list"
  | PyFloats "real list"
  | PyColors "rgb list"
  | PyDict "(string \<times> pyval) list"

text \<open>
  A \<^verbatim>\<open>dict\<close> is an association list in insertion order; \<^verbatim>\<open>d[k] = v\<close> is
  \<^const>\<open>AList.update\<close>, which overwrites the value of a key that is present and
  appends the pair otherwise.
\<close>

type_synonym pydict = "(string \<times> pyval) list"

definition keys :: "pydict \<Rightarrow> string list" where
  "keys d = map fst d"

definition is_str :: "pyval \<Rightarrow> bool" where
  "is_str v = (case v of PyStr _ \<Rightarrow> True | _ \<Rightarrow> False)"

subsection \<open>External calls and runs\<close>

text \<open>
  The objects the script talks to: \<open>Wwt\<close> is the variable \<^verbatim>\<open>wwt\<close> (the client),
  \<open>Layer\<close> the variable \<^verbatim>\<open>layer\<close>, \<open>H5file\<close> the variable \<^verbatim>\<open>f\<close> (the open file
  handle); \<open>Library\<close> stands for module-level callables (constructors and functions).
\<close>

datatype obj = Library | Wwt | Layer | H5file

datatype call =
  Call (receiver: obj) (callee: string) (args: "pyval list") (kwargs: "(string \<times> pyval) list")

datatype exn = Exn string

text \<open>
  The world outside the script. \<open>raises w c = Some e\<close> says that in this run the external
  call \<open>c\<close> raises \<open>e\<close> (no client to connect to, no such file, no such dataset, ...);
  the script has no handler, so the run ends there. \<open>h5 w k\<close> is the content of dataset
  \<open>k\<close> of the data file, \<open>Mpc_to_cm w\<close> the number that \<^verbatim>\<open>u.Mpc.to(u.cm)\<close> returns.
  The remaining fields are the behaviour of the plotting and array libraries that the
  two pywwt utility functions rely on: the colour of a named colour map at a scaled
  value, the named scaling between two bounds, and the two angles of a Cartesian point.
\<close>

record world =
  raises :: "call \<Rightarrow> exn option"
  h5 :: "string \<Rightarrow> real list"
  Mpc_to_cm :: real
  cmap_lookup :: "string \<Rightarrow> real \<Rightarrow> rgb"
  scaling :: "string \<Rightarrow> real \<Rightarrow> real \<Rightarrow> real \<Rightarrow> real"
  longitude_of :: "real \<Rightarrow> real \<Rightarrow> real \<Rightarrow> real"
  latitude_of :: "real \<Rightarrow> real \<Rightarrow> real \<Rightarrow> real"

record run =
  trace :: "call list"
  err :: "exn option"

definition start :: run where
  "start = \<lparr>trace = [], err = None\<rparr>"

text \<open>
  One external call. After an exception nothing more is executed. A call that raises is
  recorded in the trace (it was issued) and ends the run.
\<close>

definition ext :: "world \<Rightarrow> call \<Rightarrow> run \<Rightarrow> run" where
  "ext w c r =
     (case err r of
        Some e \<Rightarrow> r
      | None \<Rightarrow> \<lparr>trace = trace r @ [c], err = raises w c\<rparr>)"

subsection \<open>Array arithmetic\<close>

text \<open>
  \<^verbatim>\<open>a / s\<close> for an array \<open>a\<close> and a scalar \<open>s\<close> divides element by element. (For
  \<open>s = 0\<close> the array library yields infinities, which \<^typ>\<open>real\<close> does not have;
  statements about the quotient's values assume \<open>s \<noteq> 0\<close>.)
\<close>

definition true_divide :: "real list \<Rightarrow> real \<Rightarrow> real list" where
  "true_divide a s = map (\<lambda>v. v / s) a"

subsection \<open>The pywwt utility functions\<close>

definition clamp :: "real \<Rightarrow> real \<Rightarrow> real \<Rightarrow> real" where
  "clamp vmin vmax v = max vmin (min vmax v)"

text \<open>
  Modelled from the spec: \<^verbatim>\<open>pywwt.windows.map_array_to_colors\<close> is imported by the
  notebook and not part of the sources. The spec describes it as mapping a scalar array
  to RGB colours via a named colour scale with a named scaling and explicit min/max
  clamp bounds, returning an array of the same length as its input, clamped to the given
  min/max. The colour map and the scaling belong to the plotting library and are taken
  from the world.
\<close>

definition map_array_to_colors ::
  "world \<Rightarrow> real list \<Rightarrow> string \<Rightarrow> string \<Rightarrow> real \<Rightarrow> real \<Rightarrow> rgb list" where
  "map_array_to_colors w arr cmap scale vmin vmax =
     map (\<lambda>v. cmap_lookup w cmap (scaling w scale vmin vmax (clamp vmin vmax v))) arr"

definition radial_distance :: "real \<Rightarrow> real \<Rightarrow> real \<Rightarrow> real" where
  "radial_distance x y z = sqrt (x * x + y * y + z * z)"

text \<open>
  Modelled from the spec: \<^verbatim>\<open>pywwt.windows.convert_xyz_to_spherical\<close> is imported by the
  notebook and not part of the sources. The spec describes its result as spherical
  coordinates, an (RA, DEC, altitude) triple per point: angular longitude, angular
  latitude and radial distance. The result is a dict of three arrays, which the notebook
  extends with a fourth key. The angle formulas are taken from the world.
\<close>

definition convert_xyz_to_spherical ::
  "world \<Rightarrow> real list \<Rightarrow> real list \<Rightarrow> real list \<Rightarrow> pydict" where
  "convert_xyz_to_spherical w x y z =
     [(''RA'', PyFloats (map (\<lambda>(a, b, c). longitude_of w a b c) (zip x (zip y z)))),
      (''DEC'', PyFloats (map (\<lambda>(a, b, c). latitude_of w a b c) (zip x (zip y z)))),
      (''ALT'', PyFloats (map (\<lambda>(a, b, c). radial_distance a b c) (zip x (zip y z))))]"

subsection \<open>The script\<close>

definition props_dict :: pydict where
  "props_dict =
     [(''CoordinatesType'', PyStr ''Spherical''),
      (''MarkerScale'', PyStr ''Screen''),
      (''PointScaleType'', PyStr ''Constant''),
      (''ScaleFactor'', PyStr ''16''),
      (''ShowFarSide'', PyStr ''True''),
      (''TimeSeries'', PyStr ''False''),
      (''AltUnit'', PyStr ''MegaParsecs''),
      (''RaUnits'', PyStr ''Degrees'')]"

definition script :: "world \<Rightarrow> run" where
  "script w =
     (let r = start;
          r = ext w (Call Library ''WWTWindowsClient'' [] []) r;
          r = ext w (Call Wwt ''new_layer''
                [PyStr ''Sky'', PyStr ''minihalo'', PyStrs [''RA'', ''DEC'', ''ALT'', ''color'']] []) r;
          r = ext w (Call Layer ''set_properties'' [PyDict props_dict] []) r;
          r = ext w (Call Layer ''activate'' [] []) r;
          fn = ''radio_halo_1kpc_hdf5_part_0200_reduced.h5'';
          r = ext w (Call Library ''h5py.File'' [PyStr fn, PyStr ''r''] []) r;
          r = ext w (Call Library ''u.Mpc.to'' [PyUnit ''cm''] []) r;
          cm_per_mpc = Mpc_to_cm w;
          r = ext w (Call H5file ''__getitem__'' [PyStr ''x''] []) r;
          x = true_divide (h5 w ''x'') cm_per_mpc;
          r = ext w (Call H5file ''__getitem__'' [PyStr ''y''] []) r;
          y = true_divide (h5 w ''y'') cm_per_mpc;
          r = ext w (Call H5file ''__getitem__'' [PyStr ''z''] []) r;
          z = true_divide (h5 w ''z'') cm_per_mpc;
          r = ext w (Call H5file ''__getitem__'' [PyStr ''radio''] []) r;
          c = h5 w ''radio'';
          r = ext w (Call Library ''map_array_to_colors'' [PyFloats c, PyStr ''spectral'']
                [(''scale'', PyStr ''log''), (''vmin'', PyFloat (1 / 10 ^ 40)),
                 (''vmax'', PyFloat (4 / 10 ^ 23))]) r;
          color = map_array_to_colors w c ''spectral'' ''log'' (1 / 10 ^ 40) (4 / 10 ^ 23);
          r = ext w (Call Library ''convert_xyz_to_spherical''
                [PyFloats x, PyFloats y, PyFloats z] []) r;
          data = convert_xyz_to_spherical w x y z;
          data = AList.update ''color'' (PyColors color) data;
          r = ext w (Call H5file ''close'' [] []) r;
          r = ext w (Call Layer ''update'' []
                [(''data'', PyDict data), (''purge_all'', PyBool True),
                 (''fly_to'', PyFloats [48, - 12, 6 * 10 ^ 11, 0, 0])]) r;
          r = ext w (Call Wwt ''get_state'' [] []) r
      in r)"

subsection \<open>Derived views of the script\<close>

text \<open>
  The value of the variable \<^verbatim>\<open>data\<close> when the script's data cell has run: the
  result of the conversion extended with the key \<^verbatim>\<open>color\<close>.
\<close>

definition data_of :: "world \<Rightarrow> pydict" where
  "data_of w =
     (let cm_per_mpc = Mpc_to_cm w;
          x = true_divide (h5 w ''x'') cm_per_mpc;
          y = true_divide (h5 w ''y'') cm_per_mpc;
          z = true_divide (h5 w ''z'') cm_per_mpc;
          c = h5 w ''radio'';
          color = map_array_to_colors w c ''spectral'' ''log'' (1 / 10 ^ 40) (4 / 10 ^ 23);
          data = convert_xyz_to_spherical w x y z;
          data = AList.update ''color'' (PyColors color) data
      in data)"

text \<open>The external calls of the script in program order, with their arguments.\<close>

definition script_calls :: "world \<Rightarrow> call list" where
  "script_calls w =
     [Call Library ''WWTWindowsClient'' [] [],
      Call Wwt ''new_layer''
        [PyStr ''Sky'', PyStr ''minihalo'', PyStrs [''RA'', ''DEC'', ''ALT'', ''color'']] [],
      Call Layer ''set_properties'' [PyDict props_dict] [],
      Call Layer ''activate'' [] [],
      Call Library ''h5py.File''
        [PyStr ''radio_halo_1kpc_hdf5_part_0200_reduced.h5'', PyStr ''r''] [],
      Call Library ''u.Mpc.to'' [PyUnit ''cm''] [],
      Call H5file ''__getitem__'' [PyStr ''x''] [],
      Call H5file ''__getitem__'' [PyStr ''y''] [],
      Call H5file ''__getitem__'' [PyStr ''z''] [],
      Call H5file ''__getitem__'' [PyStr ''radio''] [],
      Call Library ''map_array_to_colors'' [PyFloats (h5 w ''radio''), PyStr ''spectral'']
        [(''scale'', PyStr ''log''), (''vmin'', PyFloat (1 / 10 ^ 40)),
         (''vmax'', PyFloat (4 / 10 ^ 23))],
      Call Library ''convert_xyz_to_spherical''
        [PyFloats (true_divide (h5 w ''x'') (Mpc_to_cm w)),
         PyFloats (true_divide (h5 w ''y'') (Mpc_to_cm w)),
         PyFloats (true_divide (h5 w ''z'') (Mpc_to_cm w))] [],
      Call H5file ''close'' [] [],
      Call Layer ''update'' []
        [(''data'', PyDict (data_of w)), (''purge_all'', PyBool True),
         (''fly_to'', PyFloats [48, - 12, 6 * 10 ^ 11, 0, 0])],
      Call Wwt ''get_state'' [] []]"

text \<open>
  Issuing a list of calls one after the other, stopping at the first that raises: the
  run of a straight-line program.
\<close>

fun issue :: "world \<Rightarrow> call list \<Rightarrow> run" where
  "issue w [] = start"
| "issue w (c # cs) =
     (case raises w c of
        Some e \<Rightarrow> \<lparr>trace = [c], err = Some e\<rparr>
      | None \<Rightarrow> \<lparr>trace = c # trace (issue w cs), err = err (issue w cs)\<rparr>)"

definition calls_of :: "obj \<Rightarrow> string \<Rightarrow> call list \<Rightarrow> call list" where
  "calls_of ob m t = filter (\<lambda>c. receiver c = ob \<and> callee c = m) t"

definition calls_on :: "obj \<Rightarrow> call list \<Rightarrow> call list" where
  "calls_on ob t = filter (\<lambda>c. receiver c = ob) t"

text \<open>The method calls on the client and on the layer, in the order issued.\<close>

definition client_calls :: "call list \<Rightarrow> (obj \<times> string) list" where
  "client_calls t =
     map (\<lambda>c. (receiver c, callee c)) (filter (\<lambda>c. receiver c = Wwt \<or> receiver c = Layer) t)"

text \<open>
  The notebook lists the components of the \<^verbatim>\<open>fly_to\<close> list in order: latitude,
  longitude, zoom, rotation, angle (the spec's five-element navigation vector).
\<close>

record navigation =
  latitude :: real
  longitude :: real
  zoom :: real
  rotation :: real
  angle :: real

definition navigation_of :: "real list \<Rightarrow> navigation option" where
  "navigation_of v =
     (case v of
        [la, lo, zo, ro, an] \<Rightarrow>
          Some \<lparr>latitude = la, longitude = lo, zoom = zo, rotation = ro, angle = an\<rparr>
      | _ \<Rightarrow> None)"

text \<open>The \<^verbatim>\<open>fly_to\<close> keyword argument of a call, when it is a list of floats.\<close>

definition fly_to_of :: "call \<Rightarrow> real list option" where
  "fly_to_of u =
     (case map_of (kwargs u) ''fly_to'' of Some (PyFloats v) \<Rightarrow> Some v | _ \<Rightarrow> None)"

text \<open>The array of floats stored under a key of a dict, if there is one.\<close>

definition column :: "pydict \<Rightarrow> string \<Rightarrow> real list option" where
  "column d k = (case map_of d k of Some (PyFloats a) \<Rightarrow> Some a | _ \<Rightarrow> None)"

subsection \<open>The life cycle of the file handle\<close>

datatype fstate = Unopened | Opened | Closed

definition is_open :: "call \<Rightarrow> bool" where
  "is_open c = (receiver c = Library \<and> callee c = ''h5py.File'')"

definition is_close :: "call \<Rightarrow> bool" where
  "is_close c = (receiver c = H5file \<and> callee c = ''close'')"

definition is_access :: "call \<Rightarrow> bool" where
  "is_access c = (receiver c = H5file \<and> callee c \<noteq> ''close'')"

text \<open>
  A monitor for the handle: it is opened from \<open>Unopened\<close> only, accessed and closed
  while \<open>Opened\<close> only. \<open>None\<close> is a violation.
\<close>

fun handle :: "fstate \<Rightarrow> call list \<Rightarrow> fstate option" where
  "handle s [] = Some s"
| "handle s (c # cs) =
     (if is_open c then (if s = Unopened then handle Opened cs else None)
      else if is_close c then (if s = Opened then handle Closed cs else None)
      else if is_access c then (if s = Opened then handle Opened cs else None)
      else handle s cs)"

subsection \<open>Two concrete worlds\<close>

text \<open>
  A world in which nothing raises: a file of two points, the first at (3, 4, 0) Mpc,
  the second at (0, 0, 1) Mpc, with the conversion factor of the units library.
\<close>

definition sample_h5 :: "string \<Rightarrow> real list" where
  "sample_h5 k =
     (if k = ''x'' then [3 * (30856775814913673 * 10 ^ 8), 0]
      else if k = ''y'' then [4 * (30856775814913673 * 10 ^ 8), 0]
      else if k = ''z'' then [0, 30856775814913673 * 10 ^ 8]
      else if k = ''radio'' then [1 / 10 ^ 30, 1]
      else [])"

definition sample_world :: world where
  "sample_world =
     \<lparr>raises = (\<lambda>c. None),
      h5 = sample_h5,
      Mpc_to_cm = 30856775814913673 * 10 ^ 8,
      cmap_lookup = (\<lambda>name v. if v < 1 then (0, 0, 0) else (255, 255, 255)),
      scaling = (\<lambda>name lo hi v. (v - lo) / (hi - lo)),
      longitude_of = (\<lambda>a b c. 0),
      latitude_of = (\<lambda>a b c. 0)\<rparr>"

text \<open>The same world, except that the file has no dataset \<^verbatim>\<open>x\<close>.\<close>

definition missing_x_world :: world where
  "missing_x_world =
     sample_world
       \<lparr>raises := (\<lambda>c. if c = Call H5file ''__getitem__'' [PyStr ''x''] []
                        then Some (Exn ''KeyError'') else None)\<rparr>"

section \<open>Runs of the script\<close>

lemma foldl_ext:
  "foldl (\<lambda>r c. ext w c r) r cs =
     (if err r = None
      then \<lparr>trace = trace r @ trace (issue w cs), err = err (issue w cs)\<rparr>
      else r)"
proof (induction cs arbitrary: r)
  case Nil
  then show ?case by (simp add: start_def)
next
  case (Cons c cs)
  have "foldl (\<lambda>r c. ext w c r) r (c # cs) =
          (if err (ext w c r) = None
           then \<lparr>trace = trace (ext w c r) @ trace (issue w cs), err = err (issue w cs)\<rparr>
           else ext w c r)"
    by (simp add: Cons.IH)
  also have "\<dots> =
          (if err r = None
           then \<lparr>trace = trace r @ trace (issue w (c # cs)), err = err (issue w (c # cs))\<rparr>
           else r)"
    by (cases "raises w c"; cases "err r") (simp_all add: ext_def)
  finally show ?case .
qed

lemma script_issue: "script w = issue w (script_calls w)"
proof -
  have "script w = foldl (\<lambda>r c. ext w c r) start (script_calls w)"
    by (simp add: script_def script_calls_def data_of_def Let_def)
  then show ?thesis
    by (simp add: foldl_ext start_def)
qed

lemma issue_prefix: "prefix (trace (issue w cs)) cs"
  by (induction cs) (auto simp: start_def split: option.splits)

lemma issue_complete: "err (issue w cs) = None \<Longrightarrow> trace (issue w cs) = cs"
  by (induction cs) (auto simp: start_def split: option.splits)

lemma issue_no_raise: "\<forall>c \<in> set cs. raises w c = None \<Longrightarrow> err (issue w cs) = None"
  by (induction cs) (auto simp: start_def split: option.splits)

lemma script_prefix: "prefix (trace (script w)) (script_calls w)"
  by (simp add: script_issue issue_prefix)

lemma script_complete: "err (script w) = None \<Longrightarrow> trace (script w) = script_calls w"
  by (simp add: script_issue issue_complete)

lemma sample_completes: "err (script sample_world) = None"
  by (simp add: script_issue issue_no_raise sample_world_def)

lemma client_calls_prefix: "prefix t t' \<Longrightarrow> prefix (client_calls t) (client_calls t')"
  by (auto simp: client_calls_def prefix_def)

lemma client_calls_script:
  "client_calls (script_calls w) =
     [(Wwt, ''new_layer''), (Layer, ''set_properties''), (Layer, ''activate''),
      (Layer, ''update''), (Wwt, ''get_state'')]"
  by (simp add: client_calls_def script_calls_def)

lemma calls_on_prefix: "prefix t t' \<Longrightarrow> prefix (calls_on ob t) (calls_on ob t')"
  by (auto simp: calls_on_def prefix_def)

lemma calls_of_prefix: "prefix t t' \<Longrightarrow> prefix (calls_of ob m t) (calls_of ob m t')"
  by (auto simp: calls_of_def prefix_def)

lemma calls_of_script_subset:
  "u \<in> set (calls_of ob m (trace (script w))) \<Longrightarrow> u \<in> set (calls_of ob m (script_calls w))"
  using set_mono_prefix [OF calls_of_prefix [OF script_prefix [of w], of ob m]] by auto

lemma calls_on_file:
  "map (\<lambda>c. (callee c, args c)) (calls_on H5file (script_calls w)) =
     [(''__getitem__'', [PyStr ''x'']), (''__getitem__'', [PyStr ''y'']),
      (''__getitem__'', [PyStr ''z'']), (''__getitem__'', [PyStr ''radio'']),
      (''close'', [])]"
  by (simp add: calls_on_def script_calls_def)

lemma update_calls:
  "calls_of Layer ''update'' (script_calls w) =
     [Call Layer ''update'' []
        [(''data'', PyDict (data_of w)), (''purge_all'', PyBool True),
         (''fly_to'', PyFloats [48, - 12, 6 * 10 ^ 11, 0, 0])]]"
  by (simp add: calls_of_def script_calls_def)


lemma set_properties_calls:
  "calls_of Layer ''set_properties'' (script_calls w) =
     [Call Layer ''set_properties'' [PyDict props_dict] []]"
  by (simp add: calls_of_def script_calls_def)

lemma map_array_to_colors_calls:
  "calls_of Library ''map_array_to_colors'' (script_calls w) =
     [Call Library ''map_array_to_colors'' [PyFloats (h5 w ''radio''), PyStr ''spectral'']
        [(''scale'', PyStr ''log''), (''vmin'', PyFloat (1 / 10 ^ 40)),
         (''vmax'', PyFloat (4 / 10 ^ 23))]]"
  by (simp add: calls_of_def script_calls_def)

lemma convert_calls:
  "calls_of Library ''convert_xyz_to_spherical'' (script_calls w) =
     [Call Library ''convert_xyz_to_spherical''
        [PyFloats (true_divide (h5 w ''x'') (Mpc_to_cm w)),
         PyFloats (true_divide (h5 w ''y'') (Mpc_to_cm w)),
         PyFloats (true_divide (h5 w ''z'') (Mpc_to_cm w))] []]"
  by (simp add: calls_of_def script_calls_def)

lemma handle_append:
  "handle s (xs @ ys) = (case handle s xs of None \<Rightarrow> None | Some t \<Rightarrow> handle t ys)"
  by (induction xs arbitrary: s) auto

lemma handle_prefix: "prefix xs ys \<Longrightarrow> handle s ys = Some t \<Longrightarrow> handle s xs \<noteq> None"
  by (auto simp: prefix_def handle_append split: option.splits)

lemma handle_script: "handle Unopened (script_calls w) = Some Closed"
  by (simp add: script_calls_def is_open_def is_close_def is_access_def)

lemma opens_script: "length (filter is_open (script_calls w)) = 1"
  by (simp add: script_calls_def is_open_def)

lemma closes_script: "length (filter is_close (script_calls w)) = 1"
  by (simp add: script_calls_def is_close_def)

lemma accesses_script:
  "map args (filter is_access (script_calls w)) =
     [[PyStr ''x''], [PyStr ''y''], [PyStr ''z''], [PyStr ''radio'']]"
  by (simp add: script_calls_def is_access_def)

lemma filter_length_prefix: "prefix xs ys \<Longrightarrow> length (filter P xs) \<le> length (filter P ys)"
  by (auto simp: prefix_def)

lemma missing_x_run:
  "script missing_x_world =
     \<lparr>trace = take 7 (script_calls missing_x_world), err = Some (Exn ''KeyError'')\<rparr>"
  by (simp add: script_issue script_calls_def missing_x_world_def start_def)


lemma radial_distance_scale:
  assumes "0 < c"
  shows "radial_distance (a / c) (b / c) (d / c) = radial_distance a b d / c"
proof -
  have "a / c * (a / c) + b / c * (b / c) + d / c * (d / c) = (a * a + b * b + d * d) / (c * c)"
    by (simp add: add_divide_distrib)
  moreover have "sqrt (c * c) = c"
    using assms by simp
  ultimately show ?thesis
    by (simp add: radial_distance_def real_sqrt_divide)
qed

lemma alt_column:
  "column (data_of w) ''ALT'' =
     Some (map (\<lambda>(a, b, c). radial_distance a b c)
            (zip (true_divide (h5 w ''x'') (Mpc_to_cm w))
              (zip (true_divide (h5 w ''y'') (Mpc_to_cm w))
                   (true_divide (h5 w ''z'') (Mpc_to_cm w)))))"
  by (simp add: column_def data_of_def convert_xyz_to_spherical_def Let_def)

lemma alt_column_nth:
  assumes "0 < Mpc_to_cm w"
    and "length (h5 w ''y'') = length (h5 w ''x'')"
    and "length (h5 w ''z'') = length (h5 w ''x'')"
    and "i < length (h5 w ''x'')"
  shows "map_option (\<lambda>a. a ! i) (column (data_of w) ''ALT'') =
           Some (radial_distance (h5 w ''x'' ! i) (h5 w ''y'' ! i) (h5 w ''z'' ! i) / Mpc_to_cm w)"
  using assms by (simp add: alt_column true_divide_def radial_distance_scale)

lemma script_calls_nth:
  "script_calls w ! 5 = Call Library ''u.Mpc.to'' [PyUnit ''cm''] []"
  "script_calls w ! 11 =
     Call Library ''convert_xyz_to_spherical''
       [PyFloats (true_divide (h5 w ''x'') (Mpc_to_cm w)),
        PyFloats (true_divide (h5 w ''y'') (Mpc_to_cm w)),
        PyFloats (true_divide (h5 w ''z'') (Mpc_to_cm w))] []"
  by (simp_all add: script_calls_def)

lemma sqrt_25: "sqrt 25 = 5"
  by (rule real_sqrt_unique) simp_all

lemma sample_alt: "column (data_of sample_world) ''ALT'' = Some [5, 1]"
  by (simp add: alt_column sample_world_def sample_h5_def true_divide_def radial_distance_def sqrt_25)

section \<open>Properties\<close>

text \<open>
  C2: the mapping passed to \<^verbatim>\<open>set_properties\<close> (its only argument, in every call
  of it that the script issues) has exactly the eight keys CoordinatesType, MarkerScale,
  PointScaleType, ScaleFactor, ShowFarSide, TimeSeries, AltUnit and RaUnits, each once,
  and every value is a string: "Spherical", "Screen", "Constant", "16", "True",
  "False", "MegaParsecs" and "Degrees", in this order.
\<close>

theorem props_dict_keys_and_values:
  "(\<forall>u \<in> set (calls_of Layer ''set_properties'' (trace (script w))).
      args u = [PyDict props_dict] \<and> kwargs u = []) \<and>
   (err (script w) = None \<longrightarrow>
      length (calls_of Layer ''set_properties'' (trace (script w))) = 1) \<and>
   keys props_dict =
     [''CoordinatesType'', ''MarkerScale'', ''PointScaleType'', ''ScaleFactor'',
      ''ShowFarSide'', ''TimeSeries'', ''AltUnit'', ''RaUnits''] \<and>
   distinct (keys props_dict) \<and>
   length props_dict = 8 \<and>
   list_all is_str (map snd props_dict) \<and>
   map_of props_dict ''CoordinatesType'' = Some (PyStr ''Spherical'') \<and>
   map_of props_dict ''MarkerScale'' = Some (PyStr ''Screen'') \<and>
   map_of props_dict ''PointScaleType'' = Some (PyStr ''Constant'') \<and>
   map_of props_dict ''ScaleFactor'' = Some (PyStr ''16'') \<and>
   map_of props_dict ''ShowFarSide'' = Some (PyStr ''True'') \<and>
   map_of props_dict ''TimeSeries'' = Some (PyStr ''False'') \<and>
   map_of props_dict ''AltUnit'' = Some (PyStr ''MegaParsecs'') \<and>
   map_of props_dict ''RaUnits'' = Some (PyStr ''Degrees'')"
proof -
  have passed: "\<forall>u \<in> set (calls_of Layer ''set_properties'' (trace (script w))).
      args u = [PyDict props_dict] \<and> kwargs u = []"
  proof
    fix u
    assume "u \<in> set (calls_of Layer ''set_properties'' (trace (script w)))"
    then have "u \<in> set (calls_of Layer ''set_properties'' (script_calls w))"
      by (rule calls_of_script_subset)
    then show "args u = [PyDict props_dict] \<and> kwargs u = []"
      by (simp add: set_properties_calls)
  qed
  have once: "err (script w) = None \<longrightarrow>
      length (calls_of Layer ''set_properties'' (trace (script w))) = 1"
    by (simp add: script_complete set_properties_calls)
  have dict: "keys props_dict =
     [''CoordinatesType'', ''MarkerScale'', ''PointScaleType'', ''ScaleFactor'',
      ''ShowFarSide'', ''TimeSeries'', ''AltUnit'', ''RaUnits''] \<and>
   distinct (keys props_dict) \<and>
   length props_dict = 8 \<and>
   list_all is_str (map snd props_dict) \<and>
   map_of props_dict ''CoordinatesType'' = Some (PyStr ''Spherical'') \<and>
   map_of props_dict ''MarkerScale'' = Some (PyStr ''Screen'') \<and>
   map_of props_dict ''PointScaleType'' = Some (PyStr ''Constant'') \<and>
   map_of props_dict ''ScaleFactor'' = Some (PyStr ''16'') \<and>
   map_of props_dict ''ShowFarSide'' = Some (PyStr ''True'') \<and>
   map_of props_dict ''TimeSeries'' = Some (PyStr ''False'') \<and>
   map_of props_dict ''AltUnit'' = Some (PyStr ''MegaParsecs'') \<and>
   map_of props_dict ''RaUnits'' = Some (PyStr ''Degrees'')"
    by (simp add: props_dict_def keys_def is_str_def)
  from passed once dict show ?thesis
    by blast
qed

theorem props_dict_keys_and_values_witness:
  "err (script sample_world) = None \<and>
   map args (calls_of Layer ''set_properties'' (trace (script sample_world))) =
     [[PyDict props_dict]] \<and>
   keys props_dict =
     [''CoordinatesType'', ''MarkerScale'', ''PointScaleType'', ''ScaleFactor'',
      ''ShowFarSide'', ''TimeSeries'', ''AltUnit'', ''RaUnits'']"
proof -
  have one: "calls_of Layer ''set_properties'' (trace (script sample_world)) =
      [Call Layer ''set_properties'' [PyDict props_dict] []]"
    by (simp add: script_complete [OF sample_completes] set_properties_calls)
  show ?thesis
    using props_dict_keys_and_values [of sample_world] sample_completes
    by (simp add: one)
qed

text \<open>
  C1: the method calls the script issues on the client and on the layer are
  \<^verbatim>\<open>new_layer\<close>, \<^verbatim>\<open>set_properties\<close>, \<^verbatim>\<open>activate\<close>, \<^verbatim>\<open>update\<close> and \<^verbatim>\<open>get_state\<close>,
  each once, in this order, and no other call on the client or the layer comes in
  between. A run that an exception ends has issued an initial part of this sequence.
\<close>

theorem client_call_sequence:
  "prefix (client_calls (trace (script w)))
     [(Wwt, ''new_layer''), (Layer, ''set_properties''), (Layer, ''activate''),
      (Layer, ''update''), (Wwt, ''get_state'')] \<and>
   (err (script w) = None \<longrightarrow>
      client_calls (trace (script w)) =
        [(Wwt, ''new_layer''), (Layer, ''set_properties''), (Layer, ''activate''),
         (Layer, ''update''), (Wwt, ''get_state'')])"
proof
  from client_calls_prefix [OF script_prefix [of w]]
  show "prefix (client_calls (trace (script w)))
     [(Wwt, ''new_layer''), (Layer, ''set_properties''), (Layer, ''activate''),
      (Layer, ''update''), (Wwt, ''get_state'')]"
    by (simp only: client_calls_script)
next
  show "err (script w) = None \<longrightarrow>
      client_calls (trace (script w)) =
        [(Wwt, ''new_layer''), (Layer, ''set_properties''), (Layer, ''activate''),
         (Layer, ''update''), (Wwt, ''get_state'')]"
    by (simp add: script_complete client_calls_script)
qed

theorem client_call_sequence_witness:
  "err (script sample_world) = None \<and>
   client_calls (trace (script sample_world)) =
     [(Wwt, ''new_layer''), (Layer, ''set_properties''), (Layer, ''activate''),
      (Layer, ''update''), (Wwt, ''get_state'')]"
  using client_call_sequence [of sample_world] sample_completes by simp

text \<open>
  C3: the script reads four datasets from the file, \<^verbatim>\<open>x\<close>, \<^verbatim>\<open>y\<close>, \<^verbatim>\<open>z\<close> and
  \<^verbatim>\<open>radio\<close>, in this order, and nothing else: the only other use of the handle is
  \<^verbatim>\<open>close\<close>. A run that an exception ends has made an initial part of these accesses.
\<close>

theorem file_reads:
  "prefix (map (\<lambda>c. (callee c, args c)) (calls_on H5file (trace (script w))))
     [(''__getitem__'', [PyStr ''x'']), (''__getitem__'', [PyStr ''y'']),
      (''__getitem__'', [PyStr ''z'']), (''__getitem__'', [PyStr ''radio'']),
      (''close'', [])] \<and>
   (err (script w) = None \<longrightarrow>
      map (\<lambda>c. (callee c, args c)) (calls_on H5file (trace (script w))) =
        [(''__getitem__'', [PyStr ''x'']), (''__getitem__'', [PyStr ''y'']),
         (''__getitem__'', [PyStr ''z'']), (''__getitem__'', [PyStr ''radio'']),
         (''close'', [])])"
proof
  have "prefix (map (\<lambda>c. (callee c, args c)) (calls_on H5file (trace (script w))))
          (map (\<lambda>c. (callee c, args c)) (calls_on H5file (script_calls w)))"
    by (rule map_mono_prefix) (rule calls_on_prefix [OF script_prefix])
  then show "prefix (map (\<lambda>c. (callee c, args c)) (calls_on H5file (trace (script w))))
     [(''__getitem__'', [PyStr ''x'']), (''__getitem__'', [PyStr ''y'']),
      (''__getitem__'', [PyStr ''z'']), (''__getitem__'', [PyStr ''radio'']),
      (''close'', [])]"
    by (simp only: calls_on_file)
next
  show "err (script w) = None \<longrightarrow>
      map (\<lambda>c. (callee c, args c)) (calls_on H5file (trace (script w))) =
        [(''__getitem__'', [PyStr ''x'']), (''__getitem__'', [PyStr ''y'']),
         (''__getitem__'', [PyStr ''z'']), (''__getitem__'', [PyStr ''radio'']),
         (''close'', [])]"
    by (simp add: script_complete calls_on_file)
qed

theorem file_reads_witness:
  "err (script sample_world) = None \<and>
   map (\<lambda>c. (callee c, args c)) (calls_on H5file (trace (script sample_world))) =
     [(''__getitem__'', [PyStr ''x'']), (''__getitem__'', [PyStr ''y'']),
      (''__getitem__'', [PyStr ''z'']), (''__getitem__'', [PyStr ''radio'']),
      (''close'', [])]"
  using file_reads [of sample_world] sample_completes by simp

text \<open>
  C4: the \<^verbatim>\<open>fly_to\<close> argument of \<^verbatim>\<open>update\<close> is the list of five numbers
  [48.0, -12.0, 6.0e11, 0.0, 0.0], read in order as latitude, longitude, zoom, rotation
  and angle. Every \<^verbatim>\<open>update\<close> the script issues carries it, and a run that is not
  ended by an exception issues \<^verbatim>\<open>update\<close> once.
\<close>

theorem fly_to_vector:
  "(\<forall>u \<in> set (calls_of Layer ''update'' (trace (script w))).
      fly_to_of u = Some [48, - 12, 600000000000, 0, 0] \<and>
      map_option length (fly_to_of u) = Some 5 \<and>
      Option.bind (fly_to_of u) navigation_of =
        Some \<lparr>latitude = 48, longitude = - 12, zoom = 600000000000,
              rotation = 0, angle = 0\<rparr>) \<and>
   (err (script w) = None \<longrightarrow>
      map fly_to_of (calls_of Layer ''update'' (trace (script w))) =
        [Some [48, - 12, 600000000000, 0, 0]])"
proof
  show "\<forall>u \<in> set (calls_of Layer ''update'' (trace (script w))).
      fly_to_of u = Some [48, - 12, 600000000000, 0, 0] \<and>
      map_option length (fly_to_of u) = Some 5 \<and>
      Option.bind (fly_to_of u) navigation_of =
        Some \<lparr>latitude = 48, longitude = - 12, zoom = 600000000000,
              rotation = 0, angle = 0\<rparr>"
  proof
    fix u
    assume "u \<in> set (calls_of Layer ''update'' (trace (script w)))"
    then have "u \<in> set (calls_of Layer ''update'' (script_calls w))"
      by (rule calls_of_script_subset)
    then have u: "fly_to_of u = Some [48, - 12, 600000000000, 0, 0]"
      by (simp add: update_calls fly_to_of_def)
    then show "fly_to_of u = Some [48, - 12, 600000000000, 0, 0] \<and>
      map_option length (fly_to_of u) = Some 5 \<and>
      Option.bind (fly_to_of u) navigation_of =
        Some \<lparr>latitude = 48, longitude = - 12, zoom = 600000000000,
              rotation = 0, angle = 0\<rparr>"
      by (simp add: navigation_of_def)
  qed
next
  show "err (script w) = None \<longrightarrow>
      map fly_to_of (calls_of Layer ''update'' (trace (script w))) =
        [Some [48, - 12, 600000000000, 0, 0]]"
    by (simp add: script_complete update_calls fly_to_of_def)
qed

theorem fly_to_vector_witness:
  "err (script sample_world) = None \<and>
   map fly_to_of (calls_of Layer ''update'' (trace (script sample_world))) =
     [Some [48, - 12, 600000000000, 0, 0]] \<and>
   map (\<lambda>u. Option.bind (fly_to_of u) navigation_of)
       (calls_of Layer ''update'' (trace (script sample_world))) =
     [Some \<lparr>latitude = 48, longitude = - 12, zoom = 600000000000,
            rotation = 0, angle = 0\<rparr>]"
proof -
  have compl: "err (script sample_world) = None"
    by (rule sample_completes)
  have one: "calls_of Layer ''update'' (trace (script sample_world)) =
      [Call Layer ''update'' []
        [(''data'', PyDict (data_of sample_world)), (''purge_all'', PyBool True),
         (''fly_to'', PyFloats [48, - 12, 6 * 10 ^ 11, 0, 0])]]"
    by (simp add: script_complete [OF compl] update_calls)
  show ?thesis
    using fly_to_vector [of sample_world] compl by (simp add: one navigation_of_def)
qed

text \<open>
  C6: the scalar field \<^verbatim>\<open>radio\<close> is mapped to colours with the colour scale
  "spectral", the scaling "log" and the bounds vmin = 1.0e-40 and vmax = 4.0e-23, and
  the three coordinate arrays, divided by the conversion factor, are converted to
  spherical coordinates; the two utility functions are called with exactly these
  arguments, once each in a run that is not ended by an exception.
\<close>

theorem utility_call_arguments:
  "err (script w) = None \<Longrightarrow>
   calls_of Library ''map_array_to_colors'' (trace (script w)) =
     [Call Library ''map_array_to_colors'' [PyFloats (h5 w ''radio''), PyStr ''spectral'']
        [(''scale'', PyStr ''log''), (''vmin'', PyFloat (1 / 10 ^ 40)),
         (''vmax'', PyFloat (4 / 10 ^ 23))]] \<and>
   calls_of Library ''convert_xyz_to_spherical'' (trace (script w)) =
     [Call Library ''convert_xyz_to_spherical''
        [PyFloats (true_divide (h5 w ''x'') (Mpc_to_cm w)),
         PyFloats (true_divide (h5 w ''y'') (Mpc_to_cm w)),
         PyFloats (true_divide (h5 w ''z'') (Mpc_to_cm w))] []]"
  by (simp only: script_complete map_array_to_colors_calls convert_calls simp_thms)

theorem utility_call_arguments_witness:
  "err (script sample_world) = None \<and>
   calls_of Library ''map_array_to_colors'' (trace (script sample_world)) =
     [Call Library ''map_array_to_colors'' [PyFloats [1 / 10 ^ 30, 1], PyStr ''spectral'']
        [(''scale'', PyStr ''log''), (''vmin'', PyFloat (1 / 10 ^ 40)),
         (''vmax'', PyFloat (4 / 10 ^ 23))]] \<and>
   calls_of Library ''convert_xyz_to_spherical'' (trace (script sample_world)) =
     [Call Library ''convert_xyz_to_spherical''
        [PyFloats [3, 0], PyFloats [4, 0], PyFloats [0, 1]] []]"
proof -
  have vals:
    "h5 sample_world ''radio'' = [1 / 10 ^ 30, 1]"
    "true_divide (h5 sample_world ''x'') (Mpc_to_cm sample_world) = [3, 0]"
    "true_divide (h5 sample_world ''y'') (Mpc_to_cm sample_world) = [4, 0]"
    "true_divide (h5 sample_world ''z'') (Mpc_to_cm sample_world) = [0, 1]"
    by (simp_all add: sample_world_def sample_h5_def true_divide_def)
  show ?thesis
    using utility_call_arguments [OF sample_completes] sample_completes
    by (simp add: vals)
qed

text \<open>
  C7, as stated, fails: a run that an exception ends between the opening of the file
  and \<^verbatim>\<open>f.close()\<close> never closes the handle, and a run that ends before the data cell
  never opens it. With a file that has no dataset \<^verbatim>\<open>x\<close> the read of \<^verbatim>\<open>f["x"]\<close>
  raises, and the script has issued the opening call once and \<^verbatim>\<open>close\<close> not at all.
\<close>

theorem file_not_closed_when_read_raises:
  "err (script missing_x_world) = Some (Exn ''KeyError'') \<and>
   length (filter is_open (trace (script missing_x_world))) = 1 \<and>
   length (filter is_close (trace (script missing_x_world))) = 0 \<and>
   handle Unopened (trace (script missing_x_world)) = Some Opened"
  by (simp add: missing_x_run)
    (simp add: script_calls_def is_open_def is_close_def is_access_def)

text \<open>
  C7, amended: in every run the call that opens the file is issued at most once and
  \<^verbatim>\<open>close\<close> at most once, every access to the handle comes after the opening and
  before the close, and nothing touches the handle after the close. In every run that
  no exception ends, the file is opened exactly once and closed exactly once, and the
  accesses in between are the reads of \<^verbatim>\<open>x\<close>, \<^verbatim>\<open>y\<close>, \<^verbatim>\<open>z\<close> and \<^verbatim>\<open>radio\<close>.
\<close>

theorem file_handle_life_cycle:
  "handle Unopened (trace (script w)) \<noteq> None \<and>
   length (filter is_open (trace (script w))) \<le> 1 \<and>
   length (filter is_close (trace (script w))) \<le> 1 \<and>
   (err (script w) = None \<longrightarrow>
      handle Unopened (trace (script w)) = Some Closed \<and>
      length (filter is_open (trace (script w))) = 1 \<and>
      length (filter is_close (trace (script w))) = 1 \<and>
      map args (filter is_access (trace (script w))) =
        [[PyStr ''x''], [PyStr ''y''], [PyStr ''z''], [PyStr ''radio'']])"
proof -
  have safe: "handle Unopened (trace (script w)) \<noteq> None"
    by (rule handle_prefix [OF script_prefix handle_script])
  have opens: "length (filter is_open (trace (script w))) \<le> 1"
    using filter_length_prefix [OF script_prefix [of w], of is_open]
    by (simp only: opens_script)
  have closes: "length (filter is_close (trace (script w))) \<le> 1"
    using filter_length_prefix [OF script_prefix [of w], of is_close]
    by (simp only: closes_script)
  have full: "err (script w) = None \<longrightarrow>
      handle Unopened (trace (script w)) = Some Closed \<and>
      length (filter is_open (trace (script w))) = 1 \<and>
      length (filter is_close (trace (script w))) = 1 \<and>
      map args (filter is_access (trace (script w))) =
        [[PyStr ''x''], [PyStr ''y''], [PyStr ''z''], [PyStr ''radio'']]"
    by (simp add: script_complete handle_script opens_script closes_script accesses_script)
  from safe opens closes full show ?thesis
    by blast
qed

theorem file_handle_life_cycle_witness:
  "err (script sample_world) = None \<and>
   handle Unopened (trace (script sample_world)) = Some Closed \<and>
   length (filter is_open (trace (script sample_world))) = 1 \<and>
   length (filter is_close (trace (script sample_world))) = 1 \<and>
   map args (filter is_access (trace (script sample_world))) =
     [[PyStr ''x''], [PyStr ''y''], [PyStr ''z''], [PyStr ''radio'']]"
  using file_handle_life_cycle [of sample_world] sample_completes by simp

text \<open>
  C8: for every scalar input array, \<^verbatim>\<open>map_array_to_colors\<close> returns an array of the
  same length, and the colour at each position is looked up for the input value clamped
  to the bounds: when vmin \<le> vmax the clamped value lies between vmin and vmax and is
  the input value itself when that lies between them.
\<close>

theorem map_array_to_colors_length_clamped:
  "length (map_array_to_colors w arr cmap scale vmin vmax) = length arr \<and>
   (\<forall>i < length arr.
      map_array_to_colors w arr cmap scale vmin vmax ! i =
        cmap_lookup w cmap (scaling w scale vmin vmax (clamp vmin vmax (arr ! i))) \<and>
      (vmin \<le> vmax \<longrightarrow>
         vmin \<le> clamp vmin vmax (arr ! i) \<and> clamp vmin vmax (arr ! i) \<le> vmax \<and>
         (arr ! i < vmin \<longrightarrow> clamp vmin vmax (arr ! i) = vmin) \<and>
         (vmax < arr ! i \<longrightarrow> clamp vmin vmax (arr ! i) = vmax) \<and>
         (vmin \<le> arr ! i \<and> arr ! i \<le> vmax \<longrightarrow> clamp vmin vmax (arr ! i) = arr ! i)))"
  by (auto simp: map_array_to_colors_def clamp_def)

theorem map_array_to_colors_length_clamped_witness:
  "length (map_array_to_colors sample_world [1 / 10 ^ 30, 1, 0] ''spectral'' ''log''
             (1 / 10 ^ 40) (4 / 10 ^ 23)) = 3 \<and>
   (1::real) / 10 ^ 40 \<le> 4 / 10 ^ 23 \<and>
   clamp (1 / 10 ^ 40) (4 / 10 ^ 23) (1 / 10 ^ 30) = 1 / 10 ^ 30 \<and>
   clamp (1 / 10 ^ 40) (4 / 10 ^ 23) 1 = 4 / 10 ^ 23 \<and>
   clamp (1 / 10 ^ 40) (4 / 10 ^ 23) 0 = 1 / 10 ^ 40 \<and>
   map_array_to_colors sample_world [1 / 10 ^ 30, 1, 0] ''spectral'' ''log''
        (1 / 10 ^ 40) (4 / 10 ^ 23) ! 1 =
     cmap_lookup sample_world ''spectral''
       (scaling sample_world ''log'' (1 / 10 ^ 40) (4 / 10 ^ 23) (4 / 10 ^ 23))"
  using map_array_to_colors_length_clamped
    [of sample_world "[1 / 10 ^ 30, 1, 0]" "''spectral''" "''log''" "1 / 10 ^ 40" "4 / 10 ^ 23"]
  by (simp add: clamp_def)



text \<open>
  C5: for every point of the file, each of the coordinates \<^verbatim>\<open>x\<close>, \<^verbatim>\<open>y\<close>, \<^verbatim>\<open>z\<close>
  (stored in centimetres) is divided by the centimetres-per-megaparsec factor that the
  units library returned, and the quotients are what the conversion utility receives;
  the call to the units library comes before the call to the conversion. So the
  altitude handed to the layer for a point is its radial distance in centimetres
  divided by that factor, that is, in megaparsecs, in agreement with the layer property
  AltUnit = "MegaParsecs" that the script sets. (The factor is positive, and the three
  coordinate datasets have one entry per point.)
\<close>

theorem coordinates_in_megaparsecs:
  assumes "err (script w) = None"
    and "0 < Mpc_to_cm w"
    and "length (h5 w ''y'') = length (h5 w ''x'')"
    and "length (h5 w ''z'') = length (h5 w ''x'')"
  shows
    "trace (script w) ! 5 = Call Library ''u.Mpc.to'' [PyUnit ''cm''] [] \<and>
     trace (script w) ! 11 =
       Call Library ''convert_xyz_to_spherical''
         [PyFloats (true_divide (h5 w ''x'') (Mpc_to_cm w)),
          PyFloats (true_divide (h5 w ''y'') (Mpc_to_cm w)),
          PyFloats (true_divide (h5 w ''z'') (Mpc_to_cm w))] [] \<and>
     (\<forall>i < length (h5 w ''x'').
        true_divide (h5 w ''x'') (Mpc_to_cm w) ! i = h5 w ''x'' ! i / Mpc_to_cm w \<and>
        true_divide (h5 w ''y'') (Mpc_to_cm w) ! i = h5 w ''y'' ! i / Mpc_to_cm w \<and>
        true_divide (h5 w ''z'') (Mpc_to_cm w) ! i = h5 w ''z'' ! i / Mpc_to_cm w \<and>
        map_option (\<lambda>a. a ! i) (column (data_of w) ''ALT'') =
          Some (radial_distance (h5 w ''x'' ! i) (h5 w ''y'' ! i) (h5 w ''z'' ! i) /
                Mpc_to_cm w)) \<and>
     map_option length (column (data_of w) ''ALT'') = Some (length (h5 w ''x'')) \<and>
     calls_of Layer ''update'' (trace (script w)) =
       [Call Layer ''update'' []
          [(''data'', PyDict (data_of w)), (''purge_all'', PyBool True),
           (''fly_to'', PyFloats [48, - 12, 6 * 10 ^ 11, 0, 0])]] \<and>
     calls_of Layer ''set_properties'' (trace (script w)) =
       [Call Layer ''set_properties'' [PyDict props_dict] []] \<and>
     map_of props_dict ''AltUnit'' = Some (PyStr ''MegaParsecs'')"
proof -
  have tr: "trace (script w) = script_calls w"
    by (rule script_complete) (rule assms(1))
  have order: "trace (script w) ! 5 = Call Library ''u.Mpc.to'' [PyUnit ''cm''] [] \<and>
     trace (script w) ! 11 =
       Call Library ''convert_xyz_to_spherical''
         [PyFloats (true_divide (h5 w ''x'') (Mpc_to_cm w)),
          PyFloats (true_divide (h5 w ''y'') (Mpc_to_cm w)),
          PyFloats (true_divide (h5 w ''z'') (Mpc_to_cm w))] []"
    by (simp only: tr script_calls_nth simp_thms)
  have points: "\<forall>i < length (h5 w ''x'').
        true_divide (h5 w ''x'') (Mpc_to_cm w) ! i = h5 w ''x'' ! i / Mpc_to_cm w \<and>
        true_divide (h5 w ''y'') (Mpc_to_cm w) ! i = h5 w ''y'' ! i / Mpc_to_cm w \<and>
        true_divide (h5 w ''z'') (Mpc_to_cm w) ! i = h5 w ''z'' ! i / Mpc_to_cm w \<and>
        map_option (\<lambda>a. a ! i) (column (data_of w) ''ALT'') =
          Some (radial_distance (h5 w ''x'' ! i) (h5 w ''y'' ! i) (h5 w ''z'' ! i) /
                Mpc_to_cm w)"
    using assms(2-4) by (simp add: alt_column_nth) (simp add: true_divide_def)
  have len: "map_option length (column (data_of w) ''ALT'') = Some (length (h5 w ''x''))"
    using assms(3,4) by (simp add: alt_column true_divide_def)
  have handed: "calls_of Layer ''update'' (trace (script w)) =
       [Call Layer ''update'' []
          [(''data'', PyDict (data_of w)), (''purge_all'', PyBool True),
           (''fly_to'', PyFloats [48, - 12, 6 * 10 ^ 11, 0, 0])]] \<and>
     calls_of Layer ''set_properties'' (trace (script w)) =
       [Call Layer ''set_properties'' [PyDict props_dict] []]"
    by (simp only: tr update_calls set_properties_calls simp_thms)
  have unit: "map_of props_dict ''AltUnit'' = Some (PyStr ''MegaParsecs'')"
    by (simp add: props_dict_def)
  from order points len handed unit show ?thesis
    by blast
qed

theorem coordinates_in_megaparsecs_witness:
  "err (script sample_world) = None \<and>
   0 < Mpc_to_cm sample_world \<and>
   length (h5 sample_world ''y'') = length (h5 sample_world ''x'') \<and>
   length (h5 sample_world ''z'') = length (h5 sample_world ''x'') \<and>
   length (h5 sample_world ''x'') = 2 \<and>
   trace (script sample_world) ! 11 =
     Call Library ''convert_xyz_to_spherical''
       [PyFloats [3, 0], PyFloats [4, 0], PyFloats [0, 1]] [] \<and>
   column (data_of sample_world) ''ALT'' = Some [5, 1]"
proof -
  have pos: "0 < Mpc_to_cm sample_world"
    by (simp add: sample_world_def)
  have leny: "length (h5 sample_world ''y'') = length (h5 sample_world ''x'')"
    by (simp add: sample_world_def sample_h5_def)
  have lenz: "length (h5 sample_world ''z'') = length (h5 sample_world ''x'')"
    by (simp add: sample_world_def sample_h5_def)
  have vals:
    "length (h5 sample_world ''x'') = 2"
    "true_divide (h5 sample_world ''x'') (Mpc_to_cm sample_world) = [3, 0]"
    "true_divide (h5 sample_world ''y'') (Mpc_to_cm sample_world) = [4, 0]"
    "true_divide (h5 sample_world ''z'') (Mpc_to_cm sample_world) = [0, 1]"
    by (simp_all add: sample_world_def sample_h5_def true_divide_def)
  show ?thesis
    using coordinates_in_megaparsecs [OF sample_completes pos leny lenz]
      sample_completes pos leny lenz
    by (simp add: vals sample_alt)
qed

end
